theory Spec2Isabelle
  imports Main "HOL-Library.Char_ord" "HOL-Library.List_Lexorder"
begin

section \<open>chat2imap: chat logs pushed into an IMAP folder\<close>

text \<open>
  A shallow embedding of \<^verbatim>\<open>chat2imap.py\<close>. Python strings are \<open>string\<close>; the
  order on them is the lexicographic one on character codes, which is what Python's
  \<^verbatim>\<open>>=\<close> on \<^verbatim>\<open>str\<close> computes. An exception is a value of \<open>py_error\<close>; a function
  that can raise returns \<open>py_error + 'a\<close>, or a pair of an optional exception and the state
  reached where the state at the moment of the raise matters.
\<close>

subsection \<open>Python values and library functions\<close>

datatype py_error = ValueError | TypeError | OSError | IMAP4_error

text \<open>A \<^verbatim>\<open>datetime\<close>; \<open>dt_utcoffset\<close> is \<open>None\<close> for a naive one, else minutes east of UTC.\<close>

record datetime =
  dt_year :: nat
  dt_month :: nat
  dt_day :: nat
  dt_hour :: nat
  dt_minute :: nat
  dt_second :: nat
  dt_utcoffset :: "int option"

text \<open>
  The library functions the program calls and this theory does not define, taken as
  parameters: \<^verbatim>\<open>datetime.strptime(data, format)\<close> (\<open>None\<close> when it raises ValueError),
  \<^verbatim>\<open>local_timezone.localize\<close>, \<^verbatim>\<open>datetime.strftime(format)\<close>, the percent-decoding
  that \<^verbatim>\<open>urllib.parse.unquote\<close> applies to a string containing \<^verbatim>\<open>%\<close>, and
  \<^verbatim>\<open>datetime.fromtimestamp(os.path.getmtime(path))\<close>.
\<close>

record pylib =
  strptime :: "string \<Rightarrow> string \<Rightarrow> datetime option"
  localize :: "datetime \<Rightarrow> datetime"
  strftime :: "datetime \<Rightarrow> string \<Rightarrow> string"
  pct_decode :: "string \<Rightarrow> string"
  getmtime :: "string \<Rightarrow> py_error + datetime"

text \<open>\<^verbatim>\<open>urllib.parse.unquote\<close>: a string without \<^verbatim>\<open>%\<close> is returned as it is.\<close>

definition unquote :: "pylib \<Rightarrow> string \<Rightarrow> string" where
  "unquote lib s = (if CHR ''%'' \<in> set s then pct_decode lib s else s)"

text \<open>\<^verbatim>\<open>s.replace(old, new)\<close> for a one-character \<open>old\<close>.\<close>

definition replace_char :: "char \<Rightarrow> string \<Rightarrow> string \<Rightarrow> string" where
  "replace_char old new s = concat (map (\<lambda>c. if c = old then new else [c]) s)"

text \<open>\<^verbatim>\<open>print(a, b, ...)\<close>: the arguments joined by single spaces.\<close>

fun py_print :: "string list \<Rightarrow> string" where
  "py_print [] = []"
| "py_print [a] = a"
| "py_print (a # b # rest) = a @ '' '' @ py_print (b # rest)"

datatype stream = Stdout | Stderr

type_synonym console = "(stream \<times> string) list"

subsection \<open>LogDir: the addresses derived from the directory\<close>

record log_dir =
  dir_name :: string
  log_type :: string
  protocol :: string
  account :: string
  contact :: string
  from_email :: string
  to_email :: string

text \<open>\<^verbatim>\<open>LogDir.get_from_email\<close>; it reads \<^verbatim>\<open>self.protocol\<close> and \<^verbatim>\<open>self.contact\<close>.\<close>

definition get_from_email :: "pylib \<Rightarrow> string \<Rightarrow> string \<Rightarrow> string" where
  "get_from_email lib proto cont =
     (let c = replace_char CHR '' '' ''_'' (unquote lib cont) in
      if proto = ''aim'' then c @ ''@aol.com''
      else if proto = ''facebook'' then c @ ''@facebook.com''
      else if proto = ''irc'' then replace_char CHR ''#'' '''' c @ ''@irc''
      else if proto \<in> set [''jabber'', ''gtalk''] then c
      else if proto = ''msn'' then
        (if CHR ''@'' \<in> set c then c else c @ ''@hotmail.com'')
      else if proto = ''yahoo'' then c @ ''@yahoo.com''
      else c @ ''@'' @ proto)"

text \<open>\<^verbatim>\<open>LogDir.get_to_email\<close>.\<close>

definition get_to_email :: "pylib \<Rightarrow> string \<Rightarrow> string \<Rightarrow> string \<Rightarrow> string" where
  "get_to_email lib proto acct cont =
     (if proto \<in> set [''facebook'', ''irc'', ''jabber'', ''gtalk''] then acct
      else get_from_email lib proto cont)"

subsection \<open>Configuration: what is synchronised\<close>

record configuration =
  known_chat_types :: "string list"
  known_logfile_extensions :: "string list"
  accounts_to_skip :: "string set"
  contacts_to_skip :: "string set"

definition qualified_account_name :: "string \<Rightarrow> string \<Rightarrow> string" where
  "qualified_account_name proto acct = proto @ '':'' @ acct"

definition qualified_contact_name :: "string \<Rightarrow> string \<Rightarrow> string \<Rightarrow> string" where
  "qualified_contact_name proto acct cont = proto @ '':'' @ acct @ '':'' @ cont"

definition syncable_protocol :: "configuration \<Rightarrow> string \<Rightarrow> bool" where
  "syncable_protocol cfg proto = (proto \<in> set (known_chat_types cfg))"

definition syncable_account :: "configuration \<Rightarrow> string \<Rightarrow> string \<Rightarrow> bool" where
  "syncable_account cfg proto acct =
     (syncable_protocol cfg proto \<and>
      qualified_account_name proto acct \<notin> accounts_to_skip cfg)"

definition syncable_contact :: "configuration \<Rightarrow> string \<Rightarrow> string \<Rightarrow> string \<Rightarrow> bool" where
  "syncable_contact cfg proto acct cont =
     (syncable_account cfg proto acct \<and>
      qualified_contact_name proto acct cont \<notin> contacts_to_skip cfg)"

text \<open>The configuration \<^verbatim>\<open>Configuration.__init__\<close> builds, but for the two skip sets.\<close>

definition default_configuration :: "string set \<Rightarrow> string set \<Rightarrow> configuration" where
  "default_configuration accts conts =
     \<lparr>known_chat_types = [''aim'', ''facebook'', ''irc'', ''jabber'', ''msn'', ''yahoo'', ''gtalk''],
      known_logfile_extensions = [''.html'', ''.txt'', ''.xml''],
      accounts_to_skip = accts,
      contacts_to_skip = conts\<rparr>"

subsection \<open>LogFile: the identity derived from the file name\<close>

record log_file =
  lf_log_dir :: log_dir
  base_name :: string
  root_name :: string
  extension :: string
  file_name :: string
  timestamp :: datetime
  message_id :: string
  file_mtime :: string

text \<open>
  \<^verbatim>\<open>os.path.splitext\<close> on a name without a directory separator (the names come from
  \<^verbatim>\<open>os.walk\<close>): the extension starts at the last dot, unless only dots precede it.
\<close>

definition splitext :: "string \<Rightarrow> string \<times> string" where
  "splitext p =
     (let ext_rev = takeWhile (\<lambda>c. c \<noteq> CHR ''.'') (rev p);
          stem = take (length p - length ext_rev - 1) p
      in if CHR ''.'' \<in> set p \<and> (\<exists>c \<in> set stem. c \<noteq> CHR ''.'')
         then (stem, CHR ''.'' # rev ext_rev) else (p, []))"

text \<open>\<^verbatim>\<open>os.path.join(a, b)\<close> of \<^verbatim>\<open>posixpath\<close>.\<close>

definition os_path_join :: "string \<Rightarrow> string \<Rightarrow> string" where
  "os_path_join a b =
     (if b \<noteq> [] \<and> hd b = CHR ''/'' then b
      else if a = [] \<or> last a = CHR ''/'' then a @ b
      else a @ ''/'' @ b)"

text \<open>\<^verbatim>\<open>s.split(' ')[-1]\<close>: what follows the last space.\<close>

definition last_token :: "string \<Rightarrow> string" where
  "last_token s = rev (takeWhile (\<lambda>c. c \<noteq> CHR '' '') (rev s))"

definition is_upper :: "char \<Rightarrow> bool" where
  "is_upper c = (CHR ''A'' \<le> c \<and> c \<le> CHR ''Z'')"

text \<open>
  \<^verbatim>\<open>re.sub('[A-Z]{2}T$', '', s)\<close>: \<^verbatim>\<open>$\<close> matches at the end of the string and before a
  newline that ends it, so at most one place matches.
\<close>

definition strip_tz_code :: "string \<Rightarrow> string" where
  "strip_tz_code s =
     (let n = length s in
      if 3 \<le> n \<and> s ! (n - 1) = CHR ''T'' \<and> is_upper (s ! (n - 2)) \<and> is_upper (s ! (n - 3))
      then take (n - 3) s
      else if 4 \<le> n \<and> s ! (n - 1) = CHR 0x0A \<and> s ! (n - 2) = CHR ''T'' \<and>
              is_upper (s ! (n - 3)) \<and> is_upper (s ! (n - 4))
      then take (n - 4) s @ [CHR 0x0A]
      else s)"

text \<open>
  \<^verbatim>\<open>LogFile.get_timestamp\<close>, with what it prints on stderr. Every exception of the outer
  \<^verbatim>\<open>try\<close> is printed about and raised again.
\<close>

definition get_timestamp ::
  "pylib \<Rightarrow> string \<Rightarrow> string \<Rightarrow> string \<Rightarrow> console \<times> (py_error + datetime)" where
  "get_timestamp lib root ext fname =
     (let failure = ([(Stderr, py_print [''timezone parsing failure: '', fname])], Inl ValueError) in
      if ext = ''.xml'' then
        (case strptime lib (last_token root) ''(%Y-%m-%dT%H.%M.%S%z)'' of
           Some d \<Rightarrow> ([], Inr d)
         | None \<Rightarrow> failure)
      else
        (let ts_string = strip_tz_code root in
         case strptime lib ts_string ''%Y-%m-%d.%H%M%S%z'' of
           Some d \<Rightarrow> ([], Inr d)
         | None \<Rightarrow>
            (case strptime lib ts_string ''%Y-%m-%d.%H%M%S'' of
               Some d \<Rightarrow> ([], Inr (localize lib d))
             | None \<Rightarrow> failure)))"

text \<open>\<^verbatim>\<open>LogFile.get_mtime\<close>.\<close>

definition get_mtime :: "pylib \<Rightarrow> string \<Rightarrow> py_error + string" where
  "get_mtime lib fname =
     (case getmtime lib fname of
        Inl e \<Rightarrow> Inl e
      | Inr m \<Rightarrow> Inr (strftime lib (localize lib m) ''%Y%m%d%H%M%S%z''))"

text \<open>\<^verbatim>\<open>LogFile.__init__\<close>: what it prints, and the object or the exception.\<close>

definition LogFile_init :: "pylib \<Rightarrow> log_dir \<Rightarrow> string \<Rightarrow> console \<times> (py_error + log_file)" where
  "LogFile_init lib ld base =
     (let (root, ext) = splitext base;
          fname = os_path_join (dir_name ld) base;
          (out, ts) = get_timestamp lib root ext fname
      in case ts of
           Inl e \<Rightarrow> (out, Inl e)
         | Inr t \<Rightarrow>
            (case get_mtime lib fname of
               Inl e \<Rightarrow> (out, Inl e)
             | Inr m \<Rightarrow>
                (out, Inr \<lparr>lf_log_dir = ld, base_name = base, root_name = root,
                           extension = ext, file_name = fname, timestamp = t,
                           message_id = strftime lib t ''%Y%m%d%H%M%S%z'' @ ''_'' @ from_email ld,
                           file_mtime = m\<rparr>)))"

text \<open>
  Trying formats in order: each attempt is the text, the format and whether the result is
  naive and has to be localized; the first that parses wins, none is a ValueError.
\<close>

fun first_parse :: "pylib \<Rightarrow> (string \<times> string \<times> bool) list \<Rightarrow> py_error + datetime" where
  "first_parse lib [] = Inl ValueError"
| "first_parse lib ((text, fmt, naive) # rest) =
     (case strptime lib text fmt of
        Some d \<Rightarrow> Inr (if naive then localize lib d else d)
      | None \<Rightarrow> first_parse lib rest)"

text \<open>
  The timestamp derivation as the specification words it: the three formats in priority
  order, each tried when the one before failed, whatever the extension.
\<close>

definition spec_timestamp :: "pylib \<Rightarrow> string \<Rightarrow> py_error + datetime" where
  "spec_timestamp lib root =
     first_parse lib
       [(last_token root, ''(%Y-%m-%dT%H.%M.%S%z)'', False),
        (strip_tz_code root, ''%Y-%m-%d.%H%M%S%z'', False),
        (strip_tz_code root, ''%Y-%m-%d.%H%M%S'', True)]"

subsection \<open>The message\<close>

text \<open>
  The headers \<^verbatim>\<open>create_email\<close> sets from the LogFile, and the body. \<^verbatim>\<open>X-Creation-Date\<close>
  (the clock) and \<^verbatim>\<open>X-Creator\<close> (a constant) are left out: nothing reads them back. The
  reading and conversion of the file is the parameter \<open>render\<close>, which can raise; what
  \<^verbatim>\<open>get_text\<close> prints about an encoding that failed is not modelled.
\<close>

record email =
  hdr_subject :: string
  hdr_to :: string
  hdr_from :: string
  hdr_message_id :: string
  hdr_references :: string
  hdr_in_reply_to :: string
  hdr_x_source_file :: string
  hdr_x_source_file_modifiedtime :: string
  payload :: string

definition create_email :: "(log_file \<Rightarrow> py_error + string) \<Rightarrow> log_file \<Rightarrow> py_error + email" where
  "create_email render f =
     (let ld = lf_log_dir f;
          references = ''Chats between '' @ from_email ld @ '' and '' @ to_email ld
      in case render f of
           Inl e \<Rightarrow> Inl e
         | Inr body \<Rightarrow>
            Inr \<lparr>hdr_subject = ''chat with '' @ from_email ld,
                 hdr_to = to_email ld,
                 hdr_from = from_email ld,
                 hdr_message_id = message_id f,
                 hdr_references = references,
                 hdr_in_reply_to = references,
                 hdr_x_source_file = file_name f,
                 hdr_x_source_file_modifiedtime = file_mtime f,
                 payload = body\<rparr>)"

subsection \<open>The IMAP folder\<close>

text \<open>
  The folder as the program sees it through \<^verbatim>\<open>imaplib\<close>: the messages in sequence order,
  each with its UID, the two headers the program fetches (absent, or their value) and its
  \<^verbatim>\<open>Deleted\<close> flag; the next UID; and the commands received so far. \<open>append_raises\<close>
  says for which arguments the statement \<^verbatim>\<open>self.server.append(...)\<close> raises (a broken
  connection, a rejected command); every other command is taken to succeed.
\<close>

record message =
  m_uid :: string
  m_message_id :: "string option"
  m_mtime :: "string option"
  m_deleted :: bool

datatype command =
    LOGIN | CREATE | SELECT | FETCH | UID_STORE_DELETED string | EXPUNGE
  | APPEND datetime email

record server =
  mailbox :: "message list"
  uidnext :: nat
  append_raises :: "datetime \<Rightarrow> email \<Rightarrow> bool"
  received :: "command list"

text \<open>A UID in the server's answers: the decimal digits of the number.\<close>

definition digit_char :: "nat \<Rightarrow> char" where
  "digit_char d = ''0123456789'' ! d"

fun uid_text :: "nat \<Rightarrow> string" where
  "uid_text n =
     (if n < 10 then [digit_char n]
      else uid_text (n div 10) @ [digit_char (n mod 10)])"

declare uid_text.simps [simp del]

definition server_command :: "command \<Rightarrow> server \<Rightarrow> server" where
  "server_command c srv = srv\<lparr>received := received srv @ [c]\<rparr>"

text \<open>\<^verbatim>\<open>UID STORE uid +FLAGS (Deleted)\<close>: no message has the UID, nothing is flagged.\<close>

definition server_uid_store_deleted :: "string \<Rightarrow> server \<Rightarrow> server" where
  "server_uid_store_deleted u srv =
     server_command (UID_STORE_DELETED u)
       (srv\<lparr>mailbox := map (\<lambda>m. if m_uid m = u then m\<lparr>m_deleted := True\<rparr> else m) (mailbox srv)\<rparr>)"

definition server_expunge :: "server \<Rightarrow> server" where
  "server_expunge srv =
     server_command EXPUNGE (srv\<lparr>mailbox := filter (\<lambda>m. \<not> m_deleted m) (mailbox srv)\<rparr>)"

text \<open>
  \<^verbatim>\<open>FETCH 1:* (UID BODY[HEADER.FIELDS (Message-ID X-Source-File-Modifiedtime)])\<close>, each
  answer already taken apart as lines 229 to 234 do: the UID and the two headers, one
  answer per message, flagged ones included. The answer of \<^verbatim>\<open>imaplib\<close> for a folder
  without messages (a list holding \<^verbatim>\<open>None\<close>, which line 229 does not unpack) is not
  modelled: the samples below all hold a message.
\<close>

type_synonym fetched = "string \<times> string option \<times> string option"

definition server_fetch :: "server \<Rightarrow> fetched list \<times> server" where
  "server_fetch srv =
     (map (\<lambda>m. (m_uid m, m_message_id m, m_mtime m)) (mailbox srv), server_command FETCH srv)"

text \<open>\<^verbatim>\<open>APPEND\<close>: the message goes to the end of the folder under the next UID.\<close>

definition server_append :: "datetime \<Rightarrow> email \<Rightarrow> server \<Rightarrow> py_error option \<times> server" where
  "server_append ts em srv =
     (if append_raises srv ts em then (Some IMAP4_error, server_command (APPEND ts em) srv)
      else (None,
        server_command (APPEND ts em)
          (srv\<lparr>mailbox := mailbox srv @
                  [\<lparr>m_uid = uid_text (uidnext srv),
                    m_message_id = Some (hdr_message_id em),
                    m_mtime = Some (hdr_x_source_file_modifiedtime em),
                    m_deleted = False\<rparr>],
                uidnext := Suc (uidnext srv)\<rparr>)))"

subsection \<open>IMAPServer: the inventory and the two mutations\<close>

text \<open>
  What the second slot of an inventory entry holds: a header value read from the server,
  the \<^verbatim>\<open>datetime\<close> that \<^verbatim>\<open>store\<close> writes, or \<^verbatim>\<open>None\<close> (the default of the lookup).
\<close>

datatype pyval = PyNone | PyStr string | PyDatetime datetime

type_synonym inventory = "string \<rightharpoonup> (string option \<times> pyval)"

text \<open>The IMAPServer object with the server behind its connection, and the console.\<close>

record session =
  remote :: server
  existing_message_ids :: inventory
  console :: console

definition say :: "stream \<Rightarrow> string list \<Rightarrow> session \<Rightarrow> session" where
  "say out args s = s\<lparr>console := console s @ [(out, py_print args)]\<rparr>"

text \<open>\<^verbatim>\<open>IMAPServer.delete\<close>.\<close>

definition IMAPServer_delete :: "string \<Rightarrow> session \<Rightarrow> session" where
  "IMAPServer_delete u s =
     s\<lparr>remote := server_expunge (server_uid_store_deleted u (remote s))\<rparr>"

text \<open>Python's \<^verbatim>\<open>str(x)\<close> and truth value of a header that may be \<^verbatim>\<open>None\<close>.\<close>

definition py_str :: "string option \<Rightarrow> string" where
  "py_str x = (case x of None \<Rightarrow> ''None'' | Some v \<Rightarrow> v)"

definition truthy :: "string option \<Rightarrow> bool" where
  "truthy x = (case x of None \<Rightarrow> False | Some v \<Rightarrow> v \<noteq> [])"

text \<open>
  The loop of \<^verbatim>\<open>IMAPServer.get_existing_message_ids\<close> over the answers of the one FETCH:
  the pairs it yields, in order, and the session after its deletions. Where a pair is
  yielded both headers are non-empty strings, which \<open>py_str\<close> returns as they are.
\<close>

fun scan_fetched ::
  "fetched list \<Rightarrow> session \<Rightarrow> (string \<times> (string option \<times> pyval)) list \<times> session" where
  "scan_fetched [] s = ([], s)"
| "scan_fetched ((u, mid, mtime) # rest) s =
     (if \<not> truthy mtime then
        scan_fetched rest
          (IMAPServer_delete u
            (say Stderr [''uid '', u, '' message-id '', py_str mid, '' has no mtime, deleted''] s))
      else if truthy mid then
        (let (ys, s') = scan_fetched rest s
         in ((py_str mid, (Some u, PyStr (py_str mtime))) # ys, s'))
      else scan_fetched rest s)"

definition get_existing_message_ids ::
  "session \<Rightarrow> (string \<times> (string option \<times> pyval)) list \<times> session" where
  "get_existing_message_ids s =
     (let (answers, srv) = server_fetch (server_command SELECT (remote s))
      in scan_fetched answers (s\<lparr>remote := srv\<rparr>))"

text \<open>The dict comprehension \<^verbatim>\<open>{ x:y for (x,y) in ... }\<close>: a later pair replaces an earlier one.\<close>

definition dict_of :: "(string \<times> 'v) list \<Rightarrow> (string \<rightharpoonup> 'v)" where
  "dict_of ys = foldl (\<lambda>d (k, v). d(k \<mapsto> v)) Map.empty ys"

text \<open>
  \<^verbatim>\<open>IMAPServer.__init__\<close> on a fresh console. \<^verbatim>\<open>num_stored_messages\<close> is left out:
  nothing reads it.
\<close>

definition IMAPServer_init :: "server \<Rightarrow> session" where
  "IMAPServer_init srv =
     (let s0 = \<lparr>remote = server_command CREATE (server_command LOGIN srv),
                existing_message_ids = Map.empty, console = []\<rparr>;
          (ys, s1) = get_existing_message_ids s0
      in s1\<lparr>existing_message_ids := dict_of ys\<rparr>)"

text \<open>\<^verbatim>\<open>IMAPServer.store\<close>: the inventory is written before the append is tried.\<close>

definition IMAPServer_store ::
  "email \<Rightarrow> datetime \<Rightarrow> string \<Rightarrow> session \<Rightarrow> py_error option \<times> session" where
  "IMAPServer_store em ts mid s =
     (let s1 = s\<lparr>existing_message_ids := (existing_message_ids s)(mid \<mapsto> (None, PyDatetime ts))\<rparr>;
          (err, srv) = server_append ts em (remote s1)
      in (err, s1\<lparr>remote := srv\<rparr>))"

subsection \<open>The reconciliation loop\<close>

text \<open>
  Lines 369 to 381 for one LogFile: the exception if one is raised, whether the loop
  \<^verbatim>\<open>continue\<close>s, and the session. Comparing a \<^verbatim>\<open>datetime\<close> with a \<^verbatim>\<open>str\<close> raises
  TypeError.
\<close>

definition too_old :: "string \<Rightarrow> string \<Rightarrow> log_file \<Rightarrow> session \<Rightarrow> session" where
  "too_old u shown f s =
     IMAPServer_delete u
       (say Stderr [''message '', file_name f, '' with uid '', u, '' too old ('', shown,
                    '') deleting.''] s)"

definition check_existing :: "session \<Rightarrow> log_file \<Rightarrow> py_error option \<times> bool \<times> session" where
  "check_existing s f =
     (let (uid, mtime) =
            (case existing_message_ids s (message_id f) of
               None \<Rightarrow> (None, PyNone)
             | Some entry \<Rightarrow> entry)
      in if truthy uid then
           (case mtime of
              PyNone \<Rightarrow> (None, False, too_old (py_str uid) ''None'' f s)
            | PyStr m \<Rightarrow>
               (if m \<noteq> [] \<and> m \<ge> file_mtime f then (None, True, s)
                else (None, False, too_old (py_str uid) m f s))
            | PyDatetime d \<Rightarrow> (Some TypeError, False, s))
         else (None, False, say Stdout [file_name f, '' was not found''] s))"

text \<open>Lines 382 to 387: the \<^verbatim>\<open>try\<close> around the rendering and the store.\<close>

definition try_store ::
  "(log_file \<Rightarrow> py_error + string) \<Rightarrow> session \<Rightarrow> log_file \<Rightarrow> py_error option \<times> session" where
  "try_store render s f =
     (let s1 = say Stdout [''storing '', file_name f] s in
      case create_email render f of
        Inl e \<Rightarrow> (Some e, say Stderr [''Error storing file '', file_name f] s1)
      | Inr em \<Rightarrow>
         (case IMAPServer_store em (timestamp f) (message_id f) s1 of
            (Some e, s2) \<Rightarrow> (Some e, say Stderr [''Error storing file '', file_name f] s2)
          | (None, s2) \<Rightarrow> (None, s2)))"

definition reconcile_one ::
  "(log_file \<Rightarrow> py_error + string) \<Rightarrow> session \<Rightarrow> log_file \<Rightarrow> py_error option \<times> session" where
  "reconcile_one render s f =
     (case check_existing s f of
        (Some e, _, s1) \<Rightarrow> (Some e, s1)
      | (None, True, s1) \<Rightarrow> (None, s1)
      | (None, False, s1) \<Rightarrow> try_store render s1 f)"

text \<open>
  The \<^verbatim>\<open>for\<close> loop over \<^verbatim>\<open>find_log_files\<close>. The generator builds each LogFile when the
  loop asks for it, so an item is what \<^verbatim>\<open>LogFile(...)\<close> printed with the object or the
  exception; an exception, there or in the body, ends the loop.
\<close>

fun reconcile ::
  "(log_file \<Rightarrow> py_error + string) \<Rightarrow> session \<Rightarrow> (console \<times> (py_error + log_file)) list
     \<Rightarrow> py_error option \<times> session" where
  "reconcile render s [] = (None, s)"
| "reconcile render s ((out, Inl e) # rest) = (Some e, s\<lparr>console := console s @ out\<rparr>)"
| "reconcile render s ((out, Inr f) # rest) =
     (case reconcile_one render (s\<lparr>console := console s @ out\<rparr>) f of
        (Some e, s1) \<Rightarrow> (Some e, s1)
      | (None, s1) \<Rightarrow> reconcile render s1 rest)"

text \<open>The main program after the configuration is read.\<close>

definition main ::
  "(log_file \<Rightarrow> py_error + string) \<Rightarrow> server \<Rightarrow> (console \<times> (py_error + log_file)) list
     \<Rightarrow> py_error option \<times> session" where
  "main render srv items =
     (let s0 = IMAPServer_init srv
      in reconcile render (s0\<lparr>remote := server_expunge (remote s0)\<rparr>) items)"

subsection \<open>Sample values for closed instances\<close>

text \<open>
  A library instance for evaluating the program on concrete inputs. \<open>sample_strptime\<close>
  is a finite part of \<^verbatim>\<open>strptime\<close>: the four texts below parse under the format beside
  them, and every other query made in this theory is one that Python rejects as well.
  \<open>sample_strftime\<close> is \<^verbatim>\<open>strftime('%Y%m%d%H%M%S%z')\<close> for four-digit years; the zone
  is US/Eastern in summer.
\<close>

definition sample_time :: "int option \<Rightarrow> datetime" where
  "sample_time off =
     \<lparr>dt_year = 2014, dt_month = 9, dt_day = 4, dt_hour = 15, dt_minute = 45, dt_second = 41,
      dt_utcoffset = off\<rparr>"

definition sample_strptime :: "string \<Rightarrow> string \<Rightarrow> datetime option" where
  "sample_strptime text fmt =
     map_of
       [((''(2014-09-04T15.45.41-0400)'', ''(%Y-%m-%dT%H.%M.%S%z)''), sample_time (Some (- 240))),
        ((''2014-09-04.154541-0400'', ''%Y-%m-%d.%H%M%S%z''), sample_time (Some (- 240))),
        ((''2014-09-04.154541'', ''%Y-%m-%d.%H%M%S''), sample_time None),
        ((''2014-09-05.101500-0400'', ''%Y-%m-%d.%H%M%S%z''),
         sample_time (Some (- 240))\<lparr>dt_day := 5, dt_hour := 10, dt_minute := 15, dt_second := 0\<rparr>)]
       (text, fmt)"

definition two_digits :: "nat \<Rightarrow> string" where
  "two_digits n = [digit_char (n div 10 mod 10), digit_char (n mod 10)]"

definition sample_strftime :: "datetime \<Rightarrow> string \<Rightarrow> string" where
  "sample_strftime d fmt =
     two_digits (dt_year d div 100) @ two_digits (dt_year d mod 100) @ two_digits (dt_month d) @
     two_digits (dt_day d) @ two_digits (dt_hour d) @ two_digits (dt_minute d) @
     two_digits (dt_second d) @
     (case dt_utcoffset d of
        None \<Rightarrow> []
      | Some off \<Rightarrow>
         (if off < 0 then ''-'' else ''+'') @ two_digits (nat \<bar>off\<bar> div 60) @
         two_digits (nat \<bar>off\<bar> mod 60))"

text \<open>Modification times: the \<^verbatim>\<open>.html\<close> log was written to a day after the others.\<close>

definition sample_getmtime :: "string \<Rightarrow> py_error + datetime" where
  "sample_getmtime path =
     Inr (sample_time None
       \<lparr>dt_day := (if path = ''logs/aim/me/bobsmith/2014-09-04.154541-0400.html'' then 6 else 5)\<rparr>)"

definition sample_lib :: pylib where
  "sample_lib =
     \<lparr>strptime = sample_strptime,
      localize = (\<lambda>d. d\<lparr>dt_utcoffset := Some (- 240)\<rparr>),
      strftime = sample_strftime,
      pct_decode = (\<lambda>s. s),
      getmtime = sample_getmtime\<rparr>"

text \<open>The LogDir of \<^verbatim>\<open>logs/aim/me/bobsmith\<close>.\<close>

definition sample_dir :: log_dir where
  "sample_dir =
     \<lparr>dir_name = ''logs/aim/me/bobsmith'', log_type = ''pidgin'', protocol = ''aim'',
      account = ''me'', contact = ''bobsmith'',
      from_email = get_from_email sample_lib ''aim'' ''bobsmith'',
      to_email = get_to_email sample_lib ''aim'' ''me'' ''bobsmith''\<rparr>"

text \<open>
  A folder holding one message of another conversation, a rendering that always
  succeeds, and what \<^verbatim>\<open>find_log_files\<close> yields for a directory with the given names.
\<close>

definition sample_server :: server where
  "sample_server =
     \<lparr>mailbox = [\<lparr>m_uid = ''1'', m_message_id = Some ''20130101120000-0500_alice@aol.com'',
                   m_mtime = Some ''20130101120500-0500'', m_deleted = False\<rparr>],
      uidnext = 2,
      append_raises = (\<lambda>ts em. False),
      received = []\<rparr>"

definition sample_render :: "log_file \<Rightarrow> py_error + string" where
  "sample_render f = Inr ''(15:45:41) bobsmith: hello''"

definition sample_items :: "string list \<Rightarrow> (console \<times> (py_error + log_file)) list" where
  "sample_items names = map (LogFile_init sample_lib sample_dir) names"

text \<open>
  Three LogFiles of that directory, as \<^verbatim>\<open>LogFile(...)\<close> builds them: two logs of the
  same conversation, hence with one Message-ID, the \<^verbatim>\<open>.html\<close> one modified later, and a
  log of the next day.
\<close>

definition sample_html :: log_file where
  "sample_html =
     \<lparr>lf_log_dir = sample_dir, base_name = ''2014-09-04.154541-0400.html'',
      root_name = ''2014-09-04.154541-0400'', extension = ''.html'',
      file_name = ''logs/aim/me/bobsmith/2014-09-04.154541-0400.html'',
      timestamp = sample_time (Some (- 240)),
      message_id = ''20140904154541-0400_bobsmith@aol.com'',
      file_mtime = ''20140906154541-0400''\<rparr>"

definition sample_txt :: log_file where
  "sample_txt =
     \<lparr>lf_log_dir = sample_dir, base_name = ''2014-09-04.154541-0400.txt'',
      root_name = ''2014-09-04.154541-0400'', extension = ''.txt'',
      file_name = ''logs/aim/me/bobsmith/2014-09-04.154541-0400.txt'',
      timestamp = sample_time (Some (- 240)),
      message_id = ''20140904154541-0400_bobsmith@aol.com'',
      file_mtime = ''20140905154541-0400''\<rparr>"

definition sample_next :: log_file where
  "sample_next =
     \<lparr>lf_log_dir = sample_dir, base_name = ''2014-09-05.101500-0400.html'',
      root_name = ''2014-09-05.101500-0400'', extension = ''.html'',
      file_name = ''logs/aim/me/bobsmith/2014-09-05.101500-0400.html'',
      timestamp = sample_time (Some (- 240))
        \<lparr>dt_day := 5, dt_hour := 10, dt_minute := 15, dt_second := 0\<rparr>,
      message_id = ''20140905101500-0400_bobsmith@aol.com'',
      file_mtime = ''20140905154541-0400''\<rparr>"

text \<open>
  A folder with a current copy of the \<^verbatim>\<open>.txt\<close> log; the same folder behind a connection
  on which every append raises; and a folder with a message that lacks the
  modification-time header and one that lacks the Message-ID header.
\<close>

definition sample_synced :: server where
  "sample_synced =
     sample_server
       \<lparr>mailbox := mailbox sample_server @
          [\<lparr>m_uid = ''2'', m_message_id = Some ''20140904154541-0400_bobsmith@aol.com'',
            m_mtime = Some ''20140905154541-0400'', m_deleted = False\<rparr>],
        uidnext := 3\<rparr>"

definition sample_broken :: server where
  "sample_broken = sample_synced\<lparr>append_raises := (\<lambda>ts em. True)\<rparr>"

definition sample_legacy :: server where
  "sample_legacy =
     sample_server
       \<lparr>mailbox := mailbox sample_server @
          [\<lparr>m_uid = ''2'', m_message_id = Some ''20140904154541-0400_bobsmith@aol.com'',
            m_mtime = None, m_deleted = False\<rparr>,
           \<lparr>m_uid = ''3'', m_message_id = None,
            m_mtime = Some ''20140905154541-0400'', m_deleted = False\<rparr>],
        uidnext := 4\<rparr>"

subsection \<open>Notions used in the statements\<close>


text \<open>
  The inventory of a folder: under each Message-ID the UID and the modification time of
  the last message that carries both headers.
\<close>

definition inventory_of :: "message list \<Rightarrow> inventory" where
  "inventory_of ms =
     dict_of (map (\<lambda>m. (py_str (m_message_id m), (Some (m_uid m), PyStr (py_str (m_mtime m)))))
               (filter (\<lambda>m. truthy (m_mtime m) \<and> truthy (m_message_id m)) ms))"

text \<open>What the generator yields for LogFiles that were all built without an exception.\<close>

definition found :: "log_file list \<Rightarrow> (console \<times> (py_error + log_file)) list" where
  "found fs = map (\<lambda>f. ([], Inr f)) fs"

text \<open>The commands a run sent: those the server received after \<open>before\<close>.\<close>

definition sent_since :: "server \<Rightarrow> server \<Rightarrow> command list" where
  "sent_since before after = drop (length (received before)) (received after)"

text \<open>The name of a command, for reading a trace.\<close>

fun command_name :: "command \<Rightarrow> string" where
  "command_name LOGIN = ''LOGIN''"
| "command_name CREATE = ''CREATE''"
| "command_name SELECT = ''SELECT''"
| "command_name FETCH = ''FETCH''"
| "command_name (UID_STORE_DELETED u) = ''UID STORE '' @ u"
| "command_name EXPUNGE = ''EXPUNGE''"
| "command_name (APPEND ts em) = ''APPEND '' @ hdr_x_source_file em"

text \<open>Two runs in a row over the two logs of one conversation.\<close>

definition sample_first_run :: "py_error option \<times> session" where
  "sample_first_run = main sample_render sample_server (found [sample_html, sample_txt])"


text \<open>The session in which the loop starts on a folder.\<close>

definition start_session :: "server \<Rightarrow> session" where
  "start_session srv =
     (IMAPServer_init srv)\<lparr>remote := server_expunge (remote (IMAPServer_init srv))\<rparr>"

section \<open>Properties\<close>

subsection \<open>Addresses and skip lists\<close>

text \<open>
  C8. The address is a function of the protocol and the contact alone (with the library's
  decoding): the contact is URL-decoded and its spaces become underscores; then aim gives
  contact@aol.com, facebook contact@facebook.com, irc the contact without \<^verbatim>\<open>#\<close> and
  @irc, jabber and gtalk the contact itself, msn the contact when it holds an \<^verbatim>\<open>@\<close> and
  contact@hotmail.com otherwise, yahoo contact@yahoo.com, any other protocol
  contact@protocol. Equal arguments give equal addresses, and aim with bobsmith gives
  bobsmith@aol.com.
\<close>

theorem get_from_email_rules:
  "get_from_email lib ''aim'' c = replace_char CHR '' '' ''_'' (unquote lib c) @ ''@aol.com''
   \<and> get_from_email lib ''facebook'' c =
       replace_char CHR '' '' ''_'' (unquote lib c) @ ''@facebook.com''
   \<and> get_from_email lib ''irc'' c =
       replace_char CHR ''#'' [] (replace_char CHR '' '' ''_'' (unquote lib c)) @ ''@irc''
   \<and> get_from_email lib ''jabber'' c = replace_char CHR '' '' ''_'' (unquote lib c)
   \<and> get_from_email lib ''gtalk'' c = replace_char CHR '' '' ''_'' (unquote lib c)
   \<and> get_from_email lib ''msn'' c =
       (if CHR ''@'' \<in> set (replace_char CHR '' '' ''_'' (unquote lib c))
        then replace_char CHR '' '' ''_'' (unquote lib c)
        else replace_char CHR '' '' ''_'' (unquote lib c) @ ''@hotmail.com'')
   \<and> get_from_email lib ''yahoo'' c = replace_char CHR '' '' ''_'' (unquote lib c) @ ''@yahoo.com''
   \<and> (p \<notin> set [''aim'', ''facebook'', ''irc'', ''jabber'', ''gtalk'', ''msn'', ''yahoo''] \<longrightarrow>
        get_from_email lib p c = replace_char CHR '' '' ''_'' (unquote lib c) @ ''@'' @ p)
   \<and> (p = p' \<and> c = c' \<longrightarrow> get_from_email lib p c = get_from_email lib p' c')
   \<and> get_from_email lib ''aim'' ''bobsmith'' = ''bobsmith@aol.com''"
  by (simp add: get_from_email_def unquote_def replace_char_def)

theorem get_from_email_rules_witness:
  "''icq'' \<notin> set [''aim'', ''facebook'', ''irc'', ''jabber'', ''gtalk'', ''msn'', ''yahoo''] \<and>
   get_from_email sample_lib ''icq'' ''bob smith'' = ''bob_smith@icq''"
  using get_from_email_rules [where lib = sample_lib and p = "''icq''" and c = "''bob smith''"]
  by (simp add: unquote_def replace_char_def)

text \<open>
  C9. A contact is synchronised exactly when its protocol is known, its qualified
  account \<^verbatim>\<open>protocol:account\<close> is not skipped and its qualified contact
  \<^verbatim>\<open>protocol:account:contact\<close> is not skipped, each test made only when the one before
  passed; so under an unknown protocol or a skipped account every contact is excluded,
  listed in the contact skip set or not.
\<close>

theorem syncable_contact_precedence:
  "syncable_contact cfg p a c =
     (p \<in> set (known_chat_types cfg) \<and>
      p @ '':'' @ a \<notin> accounts_to_skip cfg \<and>
      p @ '':'' @ a @ '':'' @ c \<notin> contacts_to_skip cfg)
   \<and> (\<not> syncable_protocol cfg p \<longrightarrow> \<not> syncable_account cfg p a)
   \<and> (\<not> syncable_account cfg p a \<longrightarrow> \<not> syncable_contact cfg p a c)
   \<and> (p \<notin> set (known_chat_types cfg) \<or> qualified_account_name p a \<in> accounts_to_skip cfg
        \<longrightarrow> \<not> syncable_contact cfg p a c)"
  by (simp add: syncable_contact_def syncable_account_def syncable_protocol_def
      qualified_account_name_def qualified_contact_name_def)

theorem syncable_contact_precedence_witness:
  "qualified_account_name ''aim'' ''work'' \<in> accounts_to_skip (default_configuration {''aim:work''} {})
   \<and> qualified_contact_name ''aim'' ''work'' ''bob''
        \<notin> contacts_to_skip (default_configuration {''aim:work''} {})
   \<and> \<not> syncable_contact (default_configuration {''aim:work''} {}) ''aim'' ''work'' ''bob''"
  using syncable_contact_precedence [where cfg = "default_configuration {''aim:work''} {}"
      and p = "''aim''" and a = "''work''" and c = "''bob''"]
  by (simp add: default_configuration_def qualified_account_name_def qualified_contact_name_def)

subsection \<open>The timestamp of a file\<close>

text \<open>
  C6, as the specification states it, fails: the three formats are not tried in order on
  every name. An \<^verbatim>\<open>.xml\<close> name in the second format is rejected although the second step
  of the specification parses it, and an \<^verbatim>\<open>.html\<close> name ending in the bracketed format
  is rejected although the first step parses it.
\<close>

theorem get_timestamp_not_priority_order:
  "get_timestamp sample_lib ''2014-09-04.154541-0400'' ''.xml''
       ''logs/aim/me/bobsmith/2014-09-04.154541-0400.xml''
     = ([(Stderr, ''timezone parsing failure:  logs/aim/me/bobsmith/2014-09-04.154541-0400.xml'')],
        Inl ValueError)
   \<and> spec_timestamp sample_lib ''2014-09-04.154541-0400'' = Inr (sample_time (Some (- 240)))
   \<and> snd (get_timestamp sample_lib ''bob (2014-09-04T15.45.41-0400)'' ''.html''
       ''logs/aim/me/bobsmith/bob (2014-09-04T15.45.41-0400).html'') = Inl ValueError
   \<and> spec_timestamp sample_lib ''bob (2014-09-04T15.45.41-0400)'' = Inr (sample_time (Some (- 240)))"
  by (simp add: get_timestamp_def spec_timestamp_def sample_lib_def sample_strptime_def
      last_token_def strip_tz_code_def is_upper_def)

text \<open>
  C6, amended. The extension chooses the formats: for \<^verbatim>\<open>.xml\<close> only the bracketed
  format, on what follows the last space of the stem; for any other extension the stem
  without a trailing zone abbreviation under \<^verbatim>\<open>YYYY-MM-DD.HHMMSS+ZZZZ\<close>, and when that
  fails under \<^verbatim>\<open>YYYY-MM-DD.HHMMSS\<close>, localized. When every format tried fails, a line with
  the file path goes to stderr and the ValueError is raised; nothing is defaulted.
\<close>

theorem get_timestamp_by_extension:
  "snd (get_timestamp lib root ext fname) =
     first_parse lib
       (if ext = ''.xml'' then [(last_token root, ''(%Y-%m-%dT%H.%M.%S%z)'', False)]
        else [(strip_tz_code root, ''%Y-%m-%d.%H%M%S%z'', False),
              (strip_tz_code root, ''%Y-%m-%d.%H%M%S'', True)])
   \<and> fst (get_timestamp lib root ext fname) =
     (case snd (get_timestamp lib root ext fname) of
        Inl e \<Rightarrow> [(Stderr, ''timezone parsing failure:  '' @ fname)]
      | Inr d \<Rightarrow> [])
   \<and> (case snd (get_timestamp lib root ext fname) of
        Inl e \<Rightarrow> e = ValueError
      | Inr d \<Rightarrow> True)"
  by (simp add: get_timestamp_def Let_def split: option.splits)

text \<open>
  C7. A name that no format parses gets no timestamp from the file's modification time:
  \<^verbatim>\<open>LogFile(...)\<close> raises, although the modification time can be read. The docstring of
  \<^verbatim>\<open>get_timestamp\<close> promises the fallback.
\<close>

theorem no_fallback_to_mtime:
  "LogFile_init sample_lib sample_dir ''notes.txt'' =
     ([(Stderr, ''timezone parsing failure:  logs/aim/me/bobsmith/notes.txt'')], Inl ValueError)
   \<and> get_mtime sample_lib ''logs/aim/me/bobsmith/notes.txt'' = Inr ''20140905154541-0400''"
  by (simp add: LogFile_init_def splitext_def os_path_join_def sample_dir_def get_timestamp_def
      get_mtime_def sample_lib_def sample_strptime_def sample_strftime_def sample_time_def
      sample_getmtime_def
      two_digits_def strip_tz_code_def is_upper_def digit_char_def)

subsection \<open>UIDs\<close>




subsection \<open>The dictionary\<close>

lemma dict_of_Nil [simp]: "dict_of [] = Map.empty"
  by (simp add: dict_of_def)

lemma dict_of_snoc [simp]: "dict_of (ys @ [(k, v)]) = (dict_of ys)(k \<mapsto> v)"
  by (simp add: dict_of_def)

lemma dict_of_SomeD: "dict_of ys k = Some v \<Longrightarrow> (k, v) \<in> set ys"
  by (induction ys rule: rev_induct) (auto split: if_splits)

lemma inventory_of_Nil [simp]: "inventory_of [] = Map.empty"
  by (simp add: inventory_of_def)


lemma inventory_of_SomeD:
  assumes "inventory_of ms k = Some (u, v)"
  shows "\<exists>m \<in> set ms. \<exists>t. m_message_id m = Some k \<and> k \<noteq> [] \<and> u = Some (m_uid m) \<and>
           m_mtime m = Some t \<and> t \<noteq> [] \<and> v = PyStr t"
proof -
  from assms obtain m where "m \<in> set ms" "truthy (m_mtime m)" "truthy (m_message_id m)"
    "k = py_str (m_message_id m)" "u = Some (m_uid m)" "v = PyStr (py_str (m_mtime m))"
    by (auto simp add: inventory_of_def dest!: dict_of_SomeD)
  then show ?thesis
    by (auto simp add: truthy_def py_str_def split: option.splits)
qed


subsection \<open>Effects of the operations, field by field\<close>

lemma say_fields [simp]:
  "remote (say out args s) = remote s"
  "existing_message_ids (say out args s) = existing_message_ids s"
  "console (say out args s) = console s @ [(out, py_print args)]"
  by (simp_all add: say_def)

lemma server_command_fields [simp]:
  "mailbox (server_command c srv) = mailbox srv"
  "uidnext (server_command c srv) = uidnext srv"
  "append_raises (server_command c srv) = append_raises srv"
  "received (server_command c srv) = received srv @ [c]"
  by (simp_all add: server_command_def)

lemma filter_flagged:
  "filter (\<lambda>m. \<not> m_deleted m) (map (\<lambda>m. if m_uid m = u then m\<lparr>m_deleted := True\<rparr> else m) ms)
     = filter (\<lambda>m. \<not> m_deleted m \<and> m_uid m \<noteq> u) ms"
  by (induction ms) auto

lemma delete_fields [simp]:
  "mailbox (remote (IMAPServer_delete u s)) =
     filter (\<lambda>m. \<not> m_deleted m \<and> m_uid m \<noteq> u) (mailbox (remote s))"
  "uidnext (remote (IMAPServer_delete u s)) = uidnext (remote s)"
  "append_raises (remote (IMAPServer_delete u s)) = append_raises (remote s)"
  "received (remote (IMAPServer_delete u s)) = received (remote s) @ [UID_STORE_DELETED u, EXPUNGE]"
  "existing_message_ids (IMAPServer_delete u s) = existing_message_ids s"
  "console (IMAPServer_delete u s) = console s"
  by (simp_all add: IMAPServer_delete_def server_expunge_def server_uid_store_deleted_def
      filter_flagged)

lemma expunge_fields [simp]:
  "mailbox (server_expunge srv) = filter (\<lambda>m. \<not> m_deleted m) (mailbox srv)"
  "uidnext (server_expunge srv) = uidnext srv"
  "append_raises (server_expunge srv) = append_raises srv"
  "received (server_expunge srv) = received srv @ [EXPUNGE]"
  by (simp_all add: server_expunge_def)

lemma too_old_fields [simp]:
  "mailbox (remote (too_old u shown f s)) =
     filter (\<lambda>m. \<not> m_deleted m \<and> m_uid m \<noteq> u) (mailbox (remote s))"
  "uidnext (remote (too_old u shown f s)) = uidnext (remote s)"
  "append_raises (remote (too_old u shown f s)) = append_raises (remote s)"
  "received (remote (too_old u shown f s)) = received (remote s) @ [UID_STORE_DELETED u, EXPUNGE]"
  "existing_message_ids (too_old u shown f s) = existing_message_ids s"
  by (simp_all add: too_old_def)


lemma store_fields:
  "fst (IMAPServer_store em ts mid s) = fst (server_append ts em (remote s))"
  "remote (snd (IMAPServer_store em ts mid s)) = snd (server_append ts em (remote s))"
  "existing_message_ids (snd (IMAPServer_store em ts mid s)) =
     (existing_message_ids s)(mid \<mapsto> (None, PyDatetime ts))"
  "console (snd (IMAPServer_store em ts mid s)) = console s"
  by (simp_all add: IMAPServer_store_def split: prod.splits)

lemma try_store_render_fails:
  "create_email render f = Inl e \<Longrightarrow>
   try_store render s f =
     (Some e, say Stderr [''Error storing file '', file_name f]
                (say Stdout [''storing '', file_name f] s))"
  by (simp add: try_store_def)

lemma try_store_rendered:
  "create_email render f = Inr em \<Longrightarrow>
   try_store render s f =
     (let r = IMAPServer_store em (timestamp f) (message_id f)
                (say Stdout [''storing '', file_name f] s)
      in case fst r of
           Some e \<Rightarrow> (Some e, say Stderr [''Error storing file '', file_name f] (snd r))
         | None \<Rightarrow> (None, snd r))"
  by (simp add: try_store_def Let_def split: prod.splits option.splits)

lemma try_store_fields:
  "fst (try_store render s f) =
     (case create_email render f of
        Inl e \<Rightarrow> Some e
      | Inr em \<Rightarrow> fst (server_append (timestamp f) em (remote s)))"
  "remote (snd (try_store render s f)) =
     (case create_email render f of
        Inl e \<Rightarrow> remote s
      | Inr em \<Rightarrow> snd (server_append (timestamp f) em (remote s)))"
  "existing_message_ids (snd (try_store render s f)) =
     (case create_email render f of
        Inl e \<Rightarrow> existing_message_ids s
      | Inr em \<Rightarrow> (existing_message_ids s)(message_id f \<mapsto> (None, PyDatetime (timestamp f))))"
  by (cases "create_email render f";
      simp add: try_store_render_fails try_store_rendered Let_def store_fields
        split: option.splits)+

lemma create_email_headers:
  "create_email render f = Inr em \<Longrightarrow>
   hdr_message_id em = message_id f \<and> hdr_x_source_file_modifiedtime em = file_mtime f \<and>
   hdr_x_source_file em = file_name f"
  by (auto simp add: create_email_def Let_def split: sum.splits)

lemma check_existing_absent:
  "existing_message_ids s (message_id f) = None \<Longrightarrow>
   check_existing s f = (None, False, say Stdout [file_name f, '' was not found''] s)"
  by (simp add: check_existing_def truthy_def)

lemma check_existing_no_handle:
  "existing_message_ids s (message_id f) = Some (u, v) \<Longrightarrow> \<not> truthy u \<Longrightarrow>
   check_existing s f = (None, False, say Stdout [file_name f, '' was not found''] s)"
  by (simp add: check_existing_def)



subsection \<open>The start-up pass\<close>

lemma scan_fetched_yields:
  "fst (scan_fetched (map (\<lambda>m. (m_uid m, m_message_id m, m_mtime m)) ms) s) =
     map (\<lambda>m. (py_str (m_message_id m), (Some (m_uid m), PyStr (py_str (m_mtime m)))))
       (filter (\<lambda>m. truthy (m_mtime m) \<and> truthy (m_message_id m)) ms)"
  by (induction ms arbitrary: s) (simp_all add: case_prod_beta)

lemma scan_fetched_received:
  "received (remote (snd (scan_fetched rs s))) =
     received (remote s) @
     concat (map (\<lambda>(u, mid, mtime). if truthy mtime then [] else [UID_STORE_DELETED u, EXPUNGE]) rs)"
  by (induction rs s rule: scan_fetched.induct) (auto split: prod.splits)

lemma scan_fetched_fixed:
  "uidnext (remote (snd (scan_fetched rs s))) = uidnext (remote s)"
  "append_raises (remote (snd (scan_fetched rs s))) = append_raises (remote s)"
  "existing_message_ids (snd (scan_fetched rs s)) = existing_message_ids s"
  by (induction rs s rule: scan_fetched.induct) (auto split: prod.splits)

lemma scan_fetched_mailbox:
  "mailbox (remote (snd (scan_fetched rs s))) =
     (if \<forall>(u, mid, mtime) \<in> set rs. truthy mtime then mailbox (remote s)
      else filter (\<lambda>m. \<not> m_deleted m \<and>
                       (\<forall>(u, mid, mtime) \<in> set rs. \<not> truthy mtime \<longrightarrow> m_uid m \<noteq> u))
             (mailbox (remote s)))"
proof (induction rs s rule: scan_fetched.induct)
  case (1 s)
  show ?case by simp
next
  case (2 u mid mtime rest s)
  show ?case
  proof (cases "truthy mtime")
    case True
    with 2 show ?thesis
      by (cases "truthy mid") (auto split: prod.splits)
  next
    case False
    with 2 show ?thesis
      by (auto split: prod.splits intro!: filter_cong)
  qed
qed



lemma concat_no_repairs:
  "\<forall>m \<in> set ms. truthy (m_mtime m) \<Longrightarrow>
   concat (map (\<lambda>(u, mid, mtime). if truthy mtime then [] else [UID_STORE_DELETED u, EXPUNGE])
     (map (\<lambda>m. (m_uid m, m_message_id m, m_mtime m)) ms)) = []"
  by (induction ms) simp_all

lemma init_existing:
  "existing_message_ids (IMAPServer_init srv) = inventory_of (mailbox srv)"
  by (simp add: IMAPServer_init_def get_existing_message_ids_def server_fetch_def
      case_prod_beta Let_def scan_fetched_yields inventory_of_def)

lemma init_received:
  "received (remote (IMAPServer_init srv)) =
     received srv @ [LOGIN, CREATE, SELECT, FETCH] @
     concat (map (\<lambda>m. if truthy (m_mtime m) then [] else [UID_STORE_DELETED (m_uid m), EXPUNGE])
       (mailbox srv))"
  by (simp add: IMAPServer_init_def get_existing_message_ids_def server_fetch_def
      case_prod_beta Let_def scan_fetched_received comp_def cong: if_cong)

lemma init_fixed:
  "uidnext (remote (IMAPServer_init srv)) = uidnext srv"
  "append_raises (remote (IMAPServer_init srv)) = append_raises srv"
  by (simp_all add: IMAPServer_init_def get_existing_message_ids_def server_fetch_def
      case_prod_beta Let_def scan_fetched_fixed)

lemma init_mailbox:
  "mailbox (remote (IMAPServer_init srv)) =
     (if \<forall>m \<in> set (mailbox srv). truthy (m_mtime m) then mailbox srv
      else filter (\<lambda>m. \<not> m_deleted m \<and>
                       (\<forall>r \<in> set (mailbox srv). \<not> truthy (m_mtime r) \<longrightarrow> m_uid m \<noteq> m_uid r))
             (mailbox srv))"
  by (simp add: IMAPServer_init_def get_existing_message_ids_def server_fetch_def
      case_prod_beta Let_def scan_fetched_mailbox)



subsection \<open>One turn of the loop\<close>

lemma check_existing_effect:
  assumes "check_existing s f = (e, c, s1)"
  shows "existing_message_ids s1 = existing_message_ids s \<and>
         (remote s1 = remote s \<or>
          (\<exists>u v. existing_message_ids s (message_id f) = Some (Some u, v) \<and> u \<noteq> [] \<and> \<not> c \<and>
                 remote s1 = remote (IMAPServer_delete u s)))"
proof (cases "existing_message_ids s (message_id f)")
  case None
  with assms show ?thesis
    by (auto simp add: check_existing_absent)
next
  case (Some entry)
  obtain u v where entry: "entry = (u, v)"
    by (cases entry)
  show ?thesis
  proof (cases "truthy u")
    case False
    with assms Some entry show ?thesis
      by (auto simp add: check_existing_no_handle)
  next
    case True
    then obtain x where u: "u = Some x" "x \<noteq> []"
      by (auto simp add: truthy_def split: option.splits)
    with assms Some entry show ?thesis
      by (cases v) (auto simp add: check_existing_def truthy_def py_str_def too_old_def
          split: if_splits)
  qed
qed

lemma reconcile_one_effect:
  assumes "reconcile_one render s f = (e, s')"
  shows "(existing_message_ids s' = existing_message_ids s \<or>
          existing_message_ids s' =
            (existing_message_ids s)(message_id f \<mapsto> (None, PyDatetime (timestamp f))))
       \<and> (\<exists>r1. (r1 = remote s \<or>
                 (\<exists>u v. existing_message_ids s (message_id f) = Some (Some u, v) \<and> u \<noteq> [] \<and>
                        r1 = remote (IMAPServer_delete u s)))
             \<and> (remote s' = r1 \<or>
                 (\<exists>em. remote s' = snd (server_append (timestamp f) em r1))))"
proof -
  obtain e1 c s1 where chk: "check_existing s f = (e1, c, s1)"
    by (cases "check_existing s f") auto
  note eff = check_existing_effect [OF chk]
  have r1: "remote s1 = remote s \<or>
            (\<exists>u v. existing_message_ids s (message_id f) = Some (Some u, v) \<and> u \<noteq> [] \<and>
                   remote s1 = remote (IMAPServer_delete u s))"
    using eff by blast
  show ?thesis
  proof (cases "e1 = None \<and> \<not> c")
    case False
    with assms chk have "s' = s1"
      by (cases e1; cases c) (auto simp add: reconcile_one_def)
    with eff r1 show ?thesis
      by (intro conjI exI [of _ "remote s1"]) simp_all
  next
    case True
    with assms chk have s': "s' = snd (try_store render s1 f)"
      by (auto simp add: reconcile_one_def)
    show ?thesis
    proof (cases "create_email render f")
      case (Inl err)
      with s' eff r1 show ?thesis
        by (intro conjI exI [of _ "remote s1"]) (simp_all add: try_store_fields)
    next
      case (Inr em)
      with s' eff r1 show ?thesis
        by (intro conjI exI [of _ "remote s1"]) (auto simp add: try_store_fields)
    qed
  qed
qed

text \<open>What one turn leaves alone: handles are never invented, a message whose UID is no
  handle stays, and only handles are marked deleted.\<close>

lemma reconcile_one_handles:
  assumes "reconcile_one render s f = (e, s')"
    and "existing_message_ids s' k = Some (Some u, v)"
  shows "existing_message_ids s k = Some (Some u, v)"
  using reconcile_one_effect [OF assms(1)] assms(2)
  by (auto split: if_splits)



subsection \<open>The whole loop\<close>

lemma console_only [simp]:
  "remote (s\<lparr>console := c\<rparr>) = remote s"
  "existing_message_ids (s\<lparr>console := c\<rparr>) = existing_message_ids s"
  by simp_all

lemma reconcile_invariant:
  assumes run: "reconcile render s items = (e, s')"
    and start: "P s"
    and turn: "\<And>s f e s'. P s \<Longrightarrow> reconcile_one render s f = (e, s') \<Longrightarrow> P s'"
    and print: "\<And>s c. P s \<Longrightarrow> P (s\<lparr>console := c\<rparr>)"
  shows "P s'"
  using run start
proof (induction items arbitrary: s)
  case Nil
  then show ?case by simp
next
  case (Cons item rest)
  obtain out r where item: "item = (out, r)"
    by (cases item)
  have P0: "P (s\<lparr>console := console s @ out\<rparr>)"
    using Cons.prems(2) by (rule print)
  show ?case
  proof (cases r)
    case (Inl err)
    with Cons.prems(1) item P0 show ?thesis
      by auto
  next
    case (Inr f)
    obtain e1 s1 where one: "reconcile_one render (s\<lparr>console := console s @ out\<rparr>) f = (e1, s1)"
      by (cases "reconcile_one render (s\<lparr>console := console s @ out\<rparr>) f") auto
    have P1: "P s1"
      using P0 one by (rule turn)
    show ?thesis
    proof (cases e1)
      case None
      with one Cons.prems(1) item Inr have "reconcile render s1 rest = (e, s')"
        by simp
      then show ?thesis
        using P1 by (rule Cons.IH)
    next
      case (Some err)
      with one Cons.prems(1) item Inr P1 show ?thesis
        by simp
    qed
  qed
qed

lemma reconcile_handles:
  assumes "reconcile render s items = (e, s')"
    and "existing_message_ids s' k = Some (Some u, v)"
  shows "existing_message_ids s k = Some (Some u, v)"
proof -
  have "\<forall>k u v. existing_message_ids s' k = Some (Some u, v) \<longrightarrow>
          existing_message_ids s k = Some (Some u, v)"
    by (rule reconcile_invariant [OF assms(1)]) (auto dest: reconcile_one_handles)
  with assms(2) show ?thesis
    by blast
qed



subsection \<open>The session the loop starts in\<close>

lemma main_reconcile:
  "main render srv items =
     reconcile render
       ((IMAPServer_init srv)\<lparr>remote := server_expunge (remote (IMAPServer_init srv))\<rparr>) items"
  by (simp add: main_def Let_def)

lemma init_no_repair_left:
  "m \<in> set (mailbox (remote (IMAPServer_init srv))) \<Longrightarrow> truthy (m_mtime m)"
  by (auto simp add: init_mailbox split: if_splits)

lemma distinct_uid_eq:
  "distinct (map m_uid ms) \<Longrightarrow> m \<in> set ms \<Longrightarrow> r \<in> set ms \<Longrightarrow> m_uid m = m_uid r \<Longrightarrow> m = r"
  by (auto simp add: distinct_map dest: inj_onD)


lemma sent_since_append:
  "received after = received before @ cs \<Longrightarrow> sent_since before after = cs"
  by (simp add: sent_since_def)

text \<open>
  C4. In the start-up pass the commands sent are the four of the fetch and, for each
  fetched record without a modification time, in order and at once, the marking of its
  UID and an expunge; no such record is left in the folder; every inventory entry comes
  from a fetched record that carries a non-empty modification time, which it holds; in the
  rest of the run an entry with a handle is one of those, so (UIDs being distinct) the UID
  of a repaired record is never the handle that a skip or a replace looks at.
\<close>

theorem inventory_self_repair:
  "sent_since srv (remote (IMAPServer_init srv)) =
     [LOGIN, CREATE, SELECT, FETCH] @
     concat (map (\<lambda>m. if truthy (m_mtime m) then [] else [UID_STORE_DELETED (m_uid m), EXPUNGE])
       (mailbox srv))
   \<and> (\<forall>m \<in> set (mailbox (remote (IMAPServer_init srv))). truthy (m_mtime m))
   \<and> (\<forall>k u v. existing_message_ids (IMAPServer_init srv) k = Some (u, v) \<longrightarrow>
        (\<exists>m \<in> set (mailbox srv). \<exists>t. m_message_id m = Some k \<and> u = Some (m_uid m) \<and>
           m_mtime m = Some t \<and> t \<noteq> [] \<and> v = PyStr t))
   \<and> (\<forall>k u v. existing_message_ids (snd (main render srv items)) k = Some (Some u, v) \<longrightarrow>
        existing_message_ids (IMAPServer_init srv) k = Some (Some u, v))
   \<and> (distinct (map m_uid (mailbox srv)) \<longrightarrow>
        (\<forall>r \<in> set (mailbox srv). \<not> truthy (m_mtime r) \<longrightarrow>
           (\<forall>k v. existing_message_ids (snd (main render srv items)) k
                     \<noteq> Some (Some (m_uid r), v))))"
proof -
  let ?s0 = "(IMAPServer_init srv)\<lparr>remote := server_expunge (remote (IMAPServer_init srv))\<rparr>"
  have run: "reconcile render ?s0 items = (fst (main render srv items), snd (main render srv items))"
    by (simp add: main_reconcile)
  have later: "existing_message_ids (IMAPServer_init srv) k = Some (Some u, v)"
    if "existing_message_ids (snd (main render srv items)) k = Some (Some u, v)" for k u v
    using reconcile_handles [OF run that] by simp
  have sent: "sent_since srv (remote (IMAPServer_init srv)) =
     [LOGIN, CREATE, SELECT, FETCH] @
     concat (map (\<lambda>m. if truthy (m_mtime m) then [] else [UID_STORE_DELETED (m_uid m), EXPUNGE])
       (mailbox srv))"
    by (rule sent_since_append) (simp add: init_received)
  have entries: "\<exists>m \<in> set (mailbox srv). \<exists>t. m_message_id m = Some k \<and> u = Some (m_uid m) \<and>
           m_mtime m = Some t \<and> t \<noteq> [] \<and> v = PyStr t"
    if "existing_message_ids (IMAPServer_init srv) k = Some (u, v)" for k u v
  proof -
    from that have "inventory_of (mailbox srv) k = Some (u, v)"
      by (simp add: init_existing)
    from inventory_of_SomeD [OF this] show ?thesis
      by blast
  qed
  have never: "existing_message_ids (snd (main render srv items)) k \<noteq> Some (Some (m_uid r), v)"
    if dist: "distinct (map m_uid (mailbox srv))" and r: "r \<in> set (mailbox srv)"
      and legacy: "\<not> truthy (m_mtime r)" for r k v
  proof
    assume "existing_message_ids (snd (main render srv items)) k = Some (Some (m_uid r), v)"
    from entries [OF later [OF this]] obtain m t where
      "m \<in> set (mailbox srv)" "m_uid r = m_uid m" "m_mtime m = Some t" "t \<noteq> []"
      by auto
    with distinct_uid_eq [OF dist r, of m] legacy show False
      by (auto simp add: truthy_def)
  qed
  from sent init_no_repair_left entries later never show ?thesis
    by blast
qed


subsection \<open>Well-formed folders\<close>







subsection \<open>A turn that settles its transcript\<close>




subsection \<open>A run settles every transcript; the next run skips them all\<close>

lemma console_same [simp]: "s\<lparr>console := console s @ []\<rparr> = s"
  by simp

lemma found_simps:
  "found [] = []"
  "found (f # rest) = ([], Inr f) # found rest"
  by (simp_all add: found_def)





subsection \<open>The sample values, evaluated\<close>

lemmas sample_lib_defs =
  LogFile_init_def splitext_def os_path_join_def sample_dir_def get_timestamp_def
  get_mtime_def sample_lib_def sample_strptime_def sample_strftime_def sample_time_def
  sample_getmtime_def get_from_email_def get_to_email_def unquote_def replace_char_def
  two_digits_def strip_tz_code_def is_upper_def digit_char_def

lemma sample_items_found:
  "sample_items [''2014-09-04.154541-0400.html'', ''2014-09-04.154541-0400.txt'',
                 ''2014-09-05.101500-0400.html'']
     = found [sample_html, sample_txt, sample_next]"
  by (simp add: sample_items_def found_def sample_html_def sample_txt_def sample_next_def
      sample_lib_defs)

lemmas run_defs =
  main_def IMAPServer_init_def get_existing_message_ids_def server_fetch_def
  server_command_def server_expunge_def server_uid_store_deleted_def IMAPServer_delete_def
  say_def truthy_def py_str_def dict_of_def reconcile_one_def check_existing_def too_old_def
  try_store_def create_email_def IMAPServer_store_def server_append_def
  sample_render_def uid_text.simps digit_char_def Let_def found_def

lemmas sample_file_defs =
  sample_html_def sample_txt_def sample_next_def sample_dir_def sample_time_def
  get_from_email_def get_to_email_def unquote_def replace_char_def

lemma sample_first_run_result:
  "fst sample_first_run = None"
  "mailbox (remote (snd sample_first_run)) =
     [\<lparr>m_uid = ''1'', m_message_id = Some ''20130101120000-0500_alice@aol.com'',
       m_mtime = Some ''20130101120500-0500'', m_deleted = False\<rparr>,
      \<lparr>m_uid = ''2'', m_message_id = Some ''20140904154541-0400_bobsmith@aol.com'',
       m_mtime = Some ''20140906154541-0400'', m_deleted = False\<rparr>,
      \<lparr>m_uid = ''3'', m_message_id = Some ''20140904154541-0400_bobsmith@aol.com'',
       m_mtime = Some ''20140905154541-0400'', m_deleted = False\<rparr>]"
  "uidnext (remote (snd sample_first_run)) = 4"
  "append_raises (remote (snd sample_first_run)) = (\<lambda>ts em. False)"
  by (simp_all add: sample_first_run_def sample_server_def run_defs sample_file_defs)








text \<open>
  C3. Two LogFiles of one run with the same Message-ID, absent from the inventory, are
  both appended: the record that \<^verbatim>\<open>store\<close> writes for the first has no handle, which
  the loop reads as not found; and its second slot is the timestamp of the file name, not
  the file's modification time.
\<close>

theorem duplicate_appended_twice:
  "message_id sample_html = message_id sample_txt
   \<and> fst sample_first_run = None
   \<and> map command_name (sent_since sample_server (remote (snd sample_first_run))) =
       [''LOGIN'', ''CREATE'', ''SELECT'', ''FETCH'', ''EXPUNGE'',
        ''APPEND logs/aim/me/bobsmith/2014-09-04.154541-0400.html'',
        ''APPEND logs/aim/me/bobsmith/2014-09-04.154541-0400.txt'']
   \<and> map (\<lambda>m. (m_uid m, m_message_id m)) (mailbox (remote (snd sample_first_run))) =
       [(''1'', Some ''20130101120000-0500_alice@aol.com''),
        (''2'', Some ''20140904154541-0400_bobsmith@aol.com''),
        (''3'', Some ''20140904154541-0400_bobsmith@aol.com'')]
   \<and> existing_message_ids (snd sample_first_run) (message_id sample_html) =
       Some (None, PyDatetime (timestamp sample_html))"
  by (simp add: sample_first_run_result)
    (simp add: sample_first_run_def sample_server_def run_defs sample_file_defs sent_since_def)



text \<open>
  C5, as the specification states it, fails: when the append for the first transcript
  raises, the run ends with that exception; nothing is sent or printed for the second
  transcript, and the stale copy deleted before the append is gone.
\<close>

theorem append_failure_stops_run:
  "fst (main sample_render sample_broken (found [sample_html, sample_next])) = Some IMAP4_error
   \<and> map command_name
        (sent_since sample_broken
           (remote (snd (main sample_render sample_broken (found [sample_html, sample_next]))))) =
       [''LOGIN'', ''CREATE'', ''SELECT'', ''FETCH'', ''EXPUNGE'', ''UID STORE 2'', ''EXPUNGE'',
        ''APPEND logs/aim/me/bobsmith/2014-09-04.154541-0400.html'']
   \<and> console (snd (main sample_render sample_broken (found [sample_html, sample_next]))) =
       [(Stderr, ''message  logs/aim/me/bobsmith/2014-09-04.154541-0400.html  with uid  2  too old ( 20140905154541-0400 ) deleting.''),
        (Stdout, ''storing  logs/aim/me/bobsmith/2014-09-04.154541-0400.html''),
        (Stderr, ''Error storing file  logs/aim/me/bobsmith/2014-09-04.154541-0400.html'')]
   \<and> map m_uid (mailbox (remote (snd (main sample_render sample_broken
          (found [sample_html, sample_next]))))) = [''1'']"
  by (simp add: sample_broken_def sample_synced_def sample_server_def run_defs sample_file_defs
      sent_since_def)

text \<open>
  C5, amended. When a transcript is not skipped, its message is rendered and the append
  raises, the loop prints \<^verbatim>\<open>Error storing file\<close> with the file path on stderr and ends
  with the exception: the transcripts after it are not processed. The inventory already
  holds the record written before the append.
\<close>

theorem append_failure_ends_run:
  assumes "check_existing (s\<lparr>console := console s @ out\<rparr>) f = (None, False, s1)"
    and "create_email render f = Inr em"
    and "append_raises (remote s1) (timestamp f) em"
  shows "reconcile render s ((out, Inr f) # rest) =
     (Some IMAP4_error,
      s1\<lparr>remote := server_command (APPEND (timestamp f) em) (remote s1),
         existing_message_ids :=
           (existing_message_ids s1)(message_id f \<mapsto> (None, PyDatetime (timestamp f))),
         console := console s1 @
           [(Stdout, ''storing  '' @ file_name f), (Stderr, ''Error storing file  '' @ file_name f)]\<rparr>)"
  using assms
  by (simp add: reconcile_one_def try_store_rendered IMAPServer_store_def server_append_def
      say_def Let_def)

theorem append_failure_ends_run_witness:
  "check_existing (start_session sample_broken) sample_next =
     (None, False, say Stdout [file_name sample_next, '' was not found''] (start_session sample_broken))
   \<and> fst (reconcile sample_render (start_session sample_broken) (found [sample_next, sample_html])) =
       Some IMAP4_error
   \<and> map command_name
        (sent_since (remote (start_session sample_broken))
          (remote (snd (reconcile sample_render (start_session sample_broken)
             (found [sample_next, sample_html]))))) =
       [''APPEND logs/aim/me/bobsmith/2014-09-05.101500-0400.html'']
   \<and> console (snd (reconcile sample_render (start_session sample_broken)
             (found [sample_next, sample_html]))) =
       console (start_session sample_broken) @
       [(Stdout, ''logs/aim/me/bobsmith/2014-09-05.101500-0400.html  was not found''),
        (Stdout, ''storing  logs/aim/me/bobsmith/2014-09-05.101500-0400.html''),
        (Stderr, ''Error storing file  logs/aim/me/bobsmith/2014-09-05.101500-0400.html'')]"
proof -
  let ?s = "start_session sample_broken"
  have absent: "existing_message_ids ?s (message_id sample_next) = None"
    by (simp add: start_session_def init_existing inventory_of_def sample_broken_def
        sample_synced_def sample_server_def truthy_def py_str_def dict_of_def sample_next_def)
  have chk: "check_existing (?s\<lparr>console := console ?s @ []\<rparr>) sample_next =
     (None, False, say Stdout [file_name sample_next, '' was not found''] ?s)"
    using check_existing_absent [OF absent] by simp
  obtain em where em: "create_email sample_render sample_next = Inr em"
    by (simp add: create_email_def sample_render_def Let_def)
  have raises: "append_raises (remote (say Stdout [file_name sample_next, '' was not found''] ?s))
      (timestamp sample_next) em"
    by (simp add: start_session_def init_fixed sample_broken_def)
  have src: "hdr_x_source_file em = ''logs/aim/me/bobsmith/2014-09-05.101500-0400.html''"
    and name: "file_name sample_next = ''logs/aim/me/bobsmith/2014-09-05.101500-0400.html''"
    using create_email_headers [OF em] by (simp_all add: sample_next_def)
  from append_failure_ends_run [OF chk em raises, of "found [sample_html]"] chk src name
  show ?thesis
    by (simp add: found_simps sent_since_def)
qed



theorem inventory_self_repair_witness:
  "distinct (map m_uid (mailbox sample_legacy))
   \<and> map (\<lambda>m. (m_uid m, m_mtime m)) (mailbox sample_legacy) =
       [(''1'', Some ''20130101120500-0500''), (''2'', None), (''3'', Some ''20140905154541-0400'')]
   \<and> sent_since sample_legacy (remote (IMAPServer_init sample_legacy)) =
       [LOGIN, CREATE, SELECT, FETCH, UID_STORE_DELETED ''2'', EXPUNGE]
   \<and> map m_uid (mailbox (remote (IMAPServer_init sample_legacy))) = [''1'', ''3'']
   \<and> existing_message_ids (IMAPServer_init sample_legacy) (message_id sample_html) = None
   \<and> existing_message_ids (snd (main sample_render sample_legacy (found [sample_html])))
        (message_id sample_html) = Some (None, PyDatetime (timestamp sample_html))"
proof -
  have dist: "distinct (map m_uid (mailbox sample_legacy))"
    and box: "map (\<lambda>m. (m_uid m, m_mtime m)) (mailbox sample_legacy) =
       [(''1'', Some ''20130101120500-0500''), (''2'', None), (''3'', Some ''20140905154541-0400'')]"
    by (simp_all add: sample_legacy_def sample_server_def)
  from inventory_self_repair [of sample_legacy sample_render "found [sample_html]"]
  have sent: "sent_since sample_legacy (remote (IMAPServer_init sample_legacy)) =
       [LOGIN, CREATE, SELECT, FETCH, UID_STORE_DELETED ''2'', EXPUNGE]"
    by (simp add: sample_legacy_def sample_server_def truthy_def)
  have left: "map m_uid (mailbox (remote (IMAPServer_init sample_legacy))) = [''1'', ''3'']"
    by (simp add: init_mailbox sample_legacy_def sample_server_def truthy_def)
  have absent: "existing_message_ids (IMAPServer_init sample_legacy) (message_id sample_html) = None"
    by (simp add: init_existing inventory_of_def sample_legacy_def sample_server_def truthy_def
        py_str_def dict_of_def sample_html_def)
  have later: "existing_message_ids (snd (main sample_render sample_legacy (found [sample_html])))
        (message_id sample_html) = Some (None, PyDatetime (timestamp sample_html))"
    by (simp add: sample_legacy_def sample_server_def run_defs sample_file_defs)
  from dist box sent left absent later show ?thesis
    by simp
qed


end
